theory Spec2Isabelle
  imports Main
begin

section \<open>The page loader of web-src/app.js\<close>

text \<open>
  The script runs once per page view. Its top level is synchronous: it resolves the
  selector, issues a dynamic import, marks the active navigation link, issues a fetch and
  installs the hash-change handler. The reactions of the two promise chains run later.
  Everything the browser answers (the URL fragment, the served document, the result of a
  selector lookup, the outcome of the import and of the fetch, the highlighter) is a field
  of the record \<open>world\<close>; what the script does is a \<open>page\<close>: the mutable document, the
  observable events in order, the pending requests and the installed handler.
\<close>

subsection \<open>Errors and host values\<close>

text \<open>
  A thrown or rejected value, as an Error object with a name and a message. An empty name
  gives a value whose string form is any given text.
\<close>

datatype error = Error string string

text \<open>Error.prototype.toString, which \<open>window.alert(err)\<close> applies to its argument.\<close>

fun toString :: "error \<Rightarrow> string" where
  "toString (Error name msg) =
     (if name = [] then msg else if msg = [] then name else name @ '': '' @ msg)"

text \<open>
  The errors the engine itself raises while the script runs. The message texts are those of
  one engine; they differ between engines.
\<close>

definition null_property :: "string \<Rightarrow> error" where
  "null_property prop =
     Error ''TypeError'' (''Cannot access property of null: '' @ prop)"

definition invalid_selector :: "string \<Rightarrow> error" where
  "invalid_selector sel = Error ''SyntaxError'' (sel @ '' is not a valid selector'')"

definition not_a_function :: error where
  "not_a_function = Error ''TypeError'' ''module.default is not a function''"

text \<open>How a promise the script does not own ends.\<close>

datatype settle = Fulfils | RejectsWith error | NeverSettles

datatype jsval = Undefined | Promise settle

datatype call_outcome = Throws error | Returns jsval

text \<open>
  The \<open>default\<close> property of a loaded module: absent or not a function, or a function from
  its argument list to the outcome of the call.
\<close>

datatype default_export = NotCallable | Callable "jsval list \<Rightarrow> call_outcome"

datatype import_outcome = ImportHangs | ImportRejects error | ImportResolves default_export

text \<open>The outcome of \<open>res.text()\<close> on a response, and of \<open>fetch\<close>.\<close>

datatype text_outcome = TextHangs | TextRejects error | TextResolves string

datatype fetch_outcome = FetchHangs | FetchRejects error | FetchResolves text_outcome

subsection \<open>The document\<close>

type_synonym elem = nat

text \<open>
  \<open>document.querySelector\<close> returns the first matching element or null, and throws a
  SyntaxError on a string that is not a selector.
\<close>

datatype lookup = Found elem | NotFound | InvalidSelector

record dom_state =
  classList :: "elem \<Rightarrow> string list"
  textContent :: "elem \<Rightarrow> string"

text \<open>DOMTokenList.add: the token is appended unless it is already there.\<close>

definition classList_add :: "string \<Rightarrow> elem \<Rightarrow> dom_state \<Rightarrow> dom_state" where
  "classList_add tok e d =
     (if tok \<in> set (classList d e) then d
      else d\<lparr>classList := (classList d)(e := classList d e @ [tok])\<rparr>)"

definition set_textContent :: "elem \<Rightarrow> string \<Rightarrow> dom_state \<Rightarrow> dom_state" where
  "set_textContent e t d = d\<lparr>textContent := (textContent d)(e := t)\<rparr>"

subsection \<open>The world and the page\<close>

text \<open>
  \<open>fragment\<close> is the fragment of the page's URL (\<open>None\<close> when the URL has none).
  \<open>highlightAll\<close> is the function imported from ./3rd-party/speed-highlight.js, which is
  not part of the script: it is taken as a parameter, in two parts. \<open>highlightAll\<close> is what
  a call does to the document, \<open>highlightAll_outcome\<close> is how a call on that document ends:
  it returns a value or it throws.
\<close>

record world =
  fragment :: "string option"
  document :: dom_state
  querySelector :: "string \<Rightarrow> lookup"
  import_result :: "string \<Rightarrow> import_outcome"
  fetch_result :: "string \<Rightarrow> fetch_outcome"
  highlightAll :: "dom_state \<Rightarrow> dom_state"
  highlightAll_outcome :: "dom_state \<Rightarrow> call_outcome"

datatype event =
    Import string
  | CallDefault "jsval list"
  | Alert string
  | Fetch string
  | SetText elem string
  | HighlightAll
  | Uncaught error
  | Unhandled error

datatype handler = ReloadPage

record page =
  doc :: dom_state
  trace :: "event list"
  pending_import :: "string option"
  pending_fetch :: "string option"
  onhashchange :: "handler option"

definition initial_page :: "world \<Rightarrow> page" where
  "initial_page w =
     \<lparr>doc = document w, trace = [], pending_import = None, pending_fetch = None,
      onhashchange = None\<rparr>"

definition emit :: "event list \<Rightarrow> page \<Rightarrow> page" where
  "emit es p = p\<lparr>trace := trace p @ es\<rparr>"

subsection \<open>Line 3: the selector\<close>

text \<open>
  The getter of \<open>window.location.hash\<close>: the empty string when the fragment is absent or
  empty, otherwise \<open>#\<close> followed by the fragment.
\<close>

definition location_hash :: "world \<Rightarrow> string" where
  "location_hash w =
     (case fragment w of None \<Rightarrow> [] | Some f \<Rightarrow> if f = [] then [] else CHR ''#'' # f)"

text \<open>\<open>s.substr(n)\<close> with a start that is not negative: the rest of the string from that
  index, empty when the index is at or beyond the end.\<close>

definition substr :: "nat \<Rightarrow> string \<Rightarrow> string" where
  "substr n s = drop n s"

text \<open>
  \<open>const example = window.location.hash.substr(1) || "cells"\<close>: the empty string is the
  only falsy string.
\<close>

definition example :: "world \<Rightarrow> string" where
  "example w = (let s = substr 1 (location_hash w) in if s = [] then ''cells'' else s)"

subsection \<open>The three template literals\<close>

definition module_path :: "string \<Rightarrow> string" where
  "module_path ex = ''./wasm/examples/'' @ ex @ ''.js''"

definition anchor_selector :: "string \<Rightarrow> string" where
  "anchor_selector ex = ''a[href='' @ [CHR 0x22] @ ''#'' @ ex @ [CHR 0x22] @ '']''"

definition source_path :: "string \<Rightarrow> string" where
  "source_path ex = ''./sources/'' @ ex @ ''.rs''"

subsection \<open>Lines 5 to 10: the module pipeline\<close>

text \<open>
  \<open>import(...)\<close> issues the request and returns a promise at once; \<open>then\<close> and \<open>catch\<close>
  attach the reactions.
\<close>

definition dynamic_import :: "string \<Rightarrow> page \<Rightarrow> page" where
  "dynamic_import ex p =
     (emit [Import (module_path ex)] p)\<lparr>pending_import := Some (module_path ex)\<rparr>"

text \<open>
  The fulfilment reaction \<open>(module) => { module.default() }\<close>: calling something that is
  not a function throws a TypeError; the value the call returns is dropped, the block has no
  return. The result is the error that rejects the promise \<open>then\<close> returned, if any.
\<close>

definition run_default :: "default_export \<Rightarrow> page \<Rightarrow> error option \<times> page" where
  "run_default m p =
     (case m of
        NotCallable \<Rightarrow> (Some not_a_function, p)
      | Callable f \<Rightarrow>
          (case f [] of
             Throws e \<Rightarrow> (Some e, emit [CallDefault []] p)
           | Returns v \<Rightarrow>
               (None,
                case v of
                  Promise (RejectsWith e) \<Rightarrow> emit [CallDefault [], Unhandled e] p
                | _ \<Rightarrow> emit [CallDefault []] p)))"

text \<open>The rejection reaction \<open>err => { window.alert(err) }\<close>.\<close>

definition catch_alert :: "error \<Rightarrow> page \<Rightarrow> page" where
  "catch_alert err p = emit [Alert (toString err)] p"

text \<open>
  The reactions of the module chain once the import settles. A rejected import skips the
  fulfilment reaction and reaches \<open>catch\<close>; so does an error thrown inside it.
\<close>

definition module_chain :: "world \<Rightarrow> page \<Rightarrow> page" where
  "module_chain w p =
     (case pending_import p of
        None \<Rightarrow> p
      | Some path \<Rightarrow>
          (case import_result w path of
             ImportHangs \<Rightarrow> p
           | ImportRejects e \<Rightarrow> catch_alert e (p\<lparr>pending_import := None\<rparr>)
           | ImportResolves m \<Rightarrow>
               (case run_default m (p\<lparr>pending_import := None\<rparr>) of
                  (Some e, p') \<Rightarrow> catch_alert e p'
                | (None, p') \<Rightarrow> p')))"

subsection \<open>Line 12: the active link\<close>

text \<open>
  \<open>document.querySelector(`a[href="#${example}"]`).classList.add("active")\<close>: reading
  \<open>classList\<close> of null throws a TypeError.
\<close>

definition mark_active :: "world \<Rightarrow> string \<Rightarrow> page \<Rightarrow> error + page" where
  "mark_active w ex p =
     (case querySelector w (anchor_selector ex) of
        InvalidSelector \<Rightarrow> Inl (invalid_selector (anchor_selector ex))
      | NotFound \<Rightarrow> Inl (null_property ''classList'')
      | Found a \<Rightarrow> Inr (p\<lparr>doc := classList_add ''active'' a (doc p)\<rparr>))"

subsection \<open>Lines 14 to 19: the source-display pipeline\<close>

definition fetch_source :: "string \<Rightarrow> page \<Rightarrow> page" where
  "fetch_source ex p =
     (emit [Fetch (source_path ex)] p)\<lparr>pending_fetch := Some (source_path ex)\<rparr>"

text \<open>
  The second reaction is \<open>document.querySelector('#code').textContent = text; highlightAll()\<close>.
  Its first statement: assigning a property of null throws a TypeError, and nothing is
  written.
\<close>

definition write_text :: "world \<Rightarrow> string \<Rightarrow> page \<Rightarrow> error + page" where
  "write_text w t p =
     (case querySelector w ''#code'' of
        InvalidSelector \<Rightarrow> Inl (invalid_selector ''#code'')
      | NotFound \<Rightarrow> Inl (null_property ''textContent'')
      | Found c \<Rightarrow> Inr (emit [SetText c t] (p\<lparr>doc := set_textContent c t (doc p)\<rparr>)))"

text \<open>
  Its second statement: the call of the highlighter, on the document as it then is. The
  value the call returns is dropped; an error it throws rejects the promise of the reaction.
\<close>

definition call_highlightAll :: "world \<Rightarrow> page \<Rightarrow> error option \<times> page" where
  "call_highlightAll w p =
     (let p' = emit [HighlightAll] (p\<lparr>doc := highlightAll w (doc p)\<rparr>)
      in case highlightAll_outcome w (doc p) of
           Throws e \<Rightarrow> (Some e, p')
         | Returns v \<Rightarrow>
             (None,
              case v of
                Promise (RejectsWith e) \<Rightarrow> emit [Unhandled e] p'
              | _ \<Rightarrow> p'))"

text \<open>
  The two statements in order: the text is already written when the highlighter is called.
  The result is the error that rejects the promise of the reaction, if any.
\<close>

definition show_text :: "world \<Rightarrow> string \<Rightarrow> page \<Rightarrow> error option \<times> page" where
  "show_text w t p =
     (case write_text w t p of
        Inl e \<Rightarrow> (Some e, p)
      | Inr p' \<Rightarrow> call_highlightAll w p')"

text \<open>
  The reactions of the source chain once the fetch settles. No rejection reaction is
  attached anywhere in this chain: an error ends as an unhandled rejection.
\<close>

definition source_chain :: "world \<Rightarrow> page \<Rightarrow> page" where
  "source_chain w p =
     (case pending_fetch p of
        None \<Rightarrow> p
      | Some path \<Rightarrow>
          (case fetch_result w path of
             FetchHangs \<Rightarrow> p
           | FetchRejects e \<Rightarrow> emit [Unhandled e] (p\<lparr>pending_fetch := None\<rparr>)
           | FetchResolves body \<Rightarrow>
               (case body of
                  TextHangs \<Rightarrow> p
                | TextRejects e \<Rightarrow> emit [Unhandled e] (p\<lparr>pending_fetch := None\<rparr>)
                | TextResolves t \<Rightarrow>
                    (case show_text w t (p\<lparr>pending_fetch := None\<rparr>) of
                       (Some e, p') \<Rightarrow> emit [Unhandled e] p'
                     | (None, p') \<Rightarrow> p'))))"

text \<open>The whole pipeline, from the fetch call to the end of its reactions.\<close>

definition source_pipeline :: "world \<Rightarrow> string \<Rightarrow> page \<Rightarrow> page" where
  "source_pipeline w ex p = source_chain w (fetch_source ex p)"

subsection \<open>The top level of the script, and a page load\<close>

text \<open>
  The statements in order. An exception at line 12 ends the evaluation of the script: the
  statements after it do not run, the import issued before it stays pending.
\<close>

definition top_level :: "world \<Rightarrow> page" where
  "top_level w =
     (let ex = example w;
          p1 = dynamic_import ex (initial_page w)
      in case mark_active w ex p1 of
           Inl e \<Rightarrow> emit [Uncaught e] p1
         | Inr p2 \<Rightarrow> (fetch_source ex p2)\<lparr>onhashchange := Some ReloadPage\<rparr>)"

text \<open>
  The two chains do not wait for each other; which one settles first is the host's choice.
\<close>

datatype schedule = ModuleFirst | SourceFirst

definition load :: "world \<Rightarrow> schedule \<Rightarrow> page" where
  "load w ord =
     (case ord of
        ModuleFirst \<Rightarrow> source_chain w (module_chain w (top_level w))
      | SourceFirst \<Rightarrow> module_chain w (source_chain w (top_level w)))"

subsection \<open>Lines 21 to 23: navigation\<close>

text \<open>
  The handler \<open>() => { window.location.reload() }\<close> takes no argument and reloads: the page
  is replaced by a fresh load in the world as it then is.
\<close>

fun run_handler :: "handler \<Rightarrow> world \<Rightarrow> schedule \<Rightarrow> page" where
  "run_handler ReloadPage w ord = load w ord"

text \<open>
  A hash-change event from fragment \<open>old\<close> to fragment \<open>new\<close>: the location holds the new
  fragment when the browser calls the installed handler, if there is one.
\<close>

definition hashchange ::
  "string option \<Rightarrow> string option \<Rightarrow> world \<Rightarrow> schedule \<Rightarrow> page \<Rightarrow> page" where
  "hashchange old new w ord p =
     (case onhashchange p of
        None \<Rightarrow> p
      | Some h \<Rightarrow> run_handler h (w\<lparr>fragment := new\<rparr>) ord)"

subsection \<open>Reading a trace\<close>

definition imports_of :: "event list \<Rightarrow> string list" where
  "imports_of es = concat (map (\<lambda>e. case e of Import s \<Rightarrow> [s] | _ \<Rightarrow> []) es)"

definition fetches_of :: "event list \<Rightarrow> string list" where
  "fetches_of es = concat (map (\<lambda>e. case e of Fetch s \<Rightarrow> [s] | _ \<Rightarrow> []) es)"

definition alerts_of :: "event list \<Rightarrow> string list" where
  "alerts_of es = concat (map (\<lambda>e. case e of Alert s \<Rightarrow> [s] | _ \<Rightarrow> []) es)"

definition calls_of :: "event list \<Rightarrow> jsval list list" where
  "calls_of es = concat (map (\<lambda>e. case e of CallDefault args \<Rightarrow> [args] | _ \<Rightarrow> []) es)"

definition writes_of :: "event list \<Rightarrow> (elem \<times> string) list" where
  "writes_of es = concat (map (\<lambda>e. case e of SetText c t \<Rightarrow> [(c, t)] | _ \<Rightarrow> []) es)"

definition uncaught_of :: "event list \<Rightarrow> error list" where
  "uncaught_of es = concat (map (\<lambda>e. case e of Uncaught x \<Rightarrow> [x] | _ \<Rightarrow> []) es)"

definition unhandled_of :: "event list \<Rightarrow> error list" where
  "unhandled_of es = concat (map (\<lambda>e. case e of Unhandled x \<Rightarrow> [x] | _ \<Rightarrow> []) es)"

subsection \<open>A concrete site\<close>

definition blank :: dom_state where
  "blank = \<lparr>classList = (\<lambda>e. []), textContent = (\<lambda>e. [])\<rparr>"

text \<open>
  A site with two examples, opened at a given fragment. Element 0 is the display element,
  elements 1 and 2 are the links to \<open>#cells\<close> and \<open>#foo\<close>. The module of \<open>cells\<close> loads
  and its entry point returns; the entry point of \<open>foo\<close> returns a promise that rejects
  later, and the source of \<open>foo\<close> cannot be fetched; nothing else exists on the server.
  The highlighter marks the display element and returns a promise.
\<close>

definition site :: "string option \<Rightarrow> world" where
  "site frag =
     \<lparr>fragment = frag,
      document = blank,
      querySelector =
        (\<lambda>s. if s = ''#code'' then Found 0
              else if s = anchor_selector ''cells'' then Found 1
              else if s = anchor_selector ''foo'' then Found 2
              else NotFound),
      import_result =
        (\<lambda>path. if path = module_path ''cells''
                 then ImportResolves (Callable (\<lambda>args. Returns Undefined))
                 else if path = module_path ''foo''
                 then ImportResolves
                        (Callable (\<lambda>args. Returns (Promise (RejectsWith
                           (Error ''Error'' ''lost context'')))))
                 else ImportRejects (Error ''TypeError'' ''module not found'')),
      fetch_result =
        (\<lambda>path. if path = source_path ''cells''
                 then FetchResolves (TextResolves ''fn main() {}'')
                 else FetchRejects (Error ''TypeError'' ''failed to fetch'')),
      highlightAll = (\<lambda>d. classList_add ''shj-highlighted'' 0 d),
      highlightAll_outcome = (\<lambda>d. Returns (Promise Fulfils))\<rparr>"

text \<open>The same site without a fragment, with a highlighter that throws and changes nothing.\<close>

definition broken_site :: world where
  "broken_site =
     (site None)
       \<lparr>highlightAll := (\<lambda>d. d),
        highlightAll_outcome := (\<lambda>d. Throws (Error ''Error'' ''no such language''))\<rparr>"

section \<open>Properties\<close>

lemmas reading_defs = imports_of_def fetches_of_def alerts_of_def calls_of_def
  writes_of_def uncaught_of_def unhandled_of_def

lemmas show_text_defs = show_text_def write_text_def call_highlightAll_def Let_def

lemmas outcome_splits = call_outcome.splits jsval.splits settle.splits

lemma module_chain_frame:
  "doc (module_chain w p) = doc p"
  "pending_fetch (module_chain w p) = pending_fetch p"
  "onhashchange (module_chain w p) = onhashchange p"
  "imports_of (trace (module_chain w p)) = imports_of (trace p)"
  "fetches_of (trace (module_chain w p)) = fetches_of (trace p)"
  "writes_of (trace (module_chain w p)) = writes_of (trace p)"
  "uncaught_of (trace (module_chain w p)) = uncaught_of (trace p)"
  by (simp_all add: module_chain_def run_default_def catch_alert_def emit_def reading_defs
      split: option.splits import_outcome.splits default_export.splits call_outcome.splits
        jsval.splits settle.splits)

lemma source_chain_frame:
  "pending_import (source_chain w p) = pending_import p"
  "onhashchange (source_chain w p) = onhashchange p"
  "imports_of (trace (source_chain w p)) = imports_of (trace p)"
  "fetches_of (trace (source_chain w p)) = fetches_of (trace p)"
  "alerts_of (trace (source_chain w p)) = alerts_of (trace p)"
  "calls_of (trace (source_chain w p)) = calls_of (trace p)"
  "uncaught_of (trace (source_chain w p)) = uncaught_of (trace p)"
  by (simp_all add: source_chain_def show_text_defs emit_def reading_defs
      split: option.splits fetch_outcome.splits text_outcome.splits lookup.splits
        outcome_splits)

lemma top_level_imports:
  "imports_of (trace (top_level w)) = [module_path (example w)]"
  "pending_import (top_level w) = Some (module_path (example w))"
  "alerts_of (trace (top_level w)) = []"
  "calls_of (trace (top_level w)) = []"
  "writes_of (trace (top_level w)) = []"
  by (simp_all add: top_level_def Let_def dynamic_import_def mark_active_def fetch_source_def
      initial_page_def emit_def reading_defs split: lookup.splits)

lemma top_level_found:
  assumes "querySelector w (anchor_selector (example w)) = Found a"
  shows "fetches_of (trace (top_level w)) = [source_path (example w)]"
    and "pending_fetch (top_level w) = Some (source_path (example w))"
    and "onhashchange (top_level w) = Some ReloadPage"
    and "uncaught_of (trace (top_level w)) = []"
    and "doc (top_level w) = classList_add ''active'' a (document w)"
  using assms
  by (simp_all add: top_level_def Let_def dynamic_import_def mark_active_def fetch_source_def
      initial_page_def emit_def reading_defs)

lemma top_level_not_found:
  assumes "querySelector w (anchor_selector (example w)) = NotFound"
  shows "fetches_of (trace (top_level w)) = []"
    and "pending_fetch (top_level w) = None"
    and "onhashchange (top_level w) = None"
    and "uncaught_of (trace (top_level w)) = [null_property ''classList'']"
    and "doc (top_level w) = document w"
  using assms
  by (simp_all add: top_level_def Let_def dynamic_import_def mark_active_def fetch_source_def
      initial_page_def emit_def reading_defs)

lemma top_level_invalid:
  assumes "querySelector w (anchor_selector (example w)) = InvalidSelector"
  shows "fetches_of (trace (top_level w)) = []"
    and "pending_fetch (top_level w) = None"
    and "onhashchange (top_level w) = None"
    and "doc (top_level w) = document w"
  using assms
  by (simp_all add: top_level_def Let_def dynamic_import_def mark_active_def fetch_source_def
      initial_page_def emit_def reading_defs)

lemma load_imports: "imports_of (trace (load w ord)) = [module_path (example w)]"
  by (cases ord) (simp_all add: load_def module_chain_frame source_chain_frame top_level_imports)

lemma load_fetches:
  "fetches_of (trace (load w ord)) =
     (case querySelector w (anchor_selector (example w)) of
        Found a \<Rightarrow> [source_path (example w)] | _ \<Rightarrow> [])"
  by (cases ord; cases "querySelector w (anchor_selector (example w))")
     (simp_all add: load_def module_chain_frame source_chain_frame top_level_found
       top_level_not_found top_level_invalid)

lemma module_chain_alerts:
  assumes "pending_import p = Some path"
  shows "alerts_of (trace (module_chain w p)) =
     alerts_of (trace p) @
     (case import_result w path of
        ImportHangs \<Rightarrow> []
      | ImportRejects e \<Rightarrow> [toString e]
      | ImportResolves m \<Rightarrow>
          (case m of
             NotCallable \<Rightarrow> [toString not_a_function]
           | Callable f \<Rightarrow> (case f [] of Throws e \<Rightarrow> [toString e] | Returns v \<Rightarrow> [])))"
  using assms
  by (simp add: module_chain_def run_default_def catch_alert_def emit_def alerts_of_def
      split: import_outcome.splits default_export.splits call_outcome.splits
        jsval.splits settle.splits)

lemma load_alerts:
  "alerts_of (trace (load w ord)) =
     (case import_result w (module_path (example w)) of
        ImportHangs \<Rightarrow> []
      | ImportRejects e \<Rightarrow> [toString e]
      | ImportResolves m \<Rightarrow>
          (case m of
             NotCallable \<Rightarrow> [toString not_a_function]
           | Callable f \<Rightarrow> (case f [] of Throws e \<Rightarrow> [toString e] | Returns v \<Rightarrow> [])))"
  by (cases ord)
     (simp_all add: load_def source_chain_frame top_level_imports
       module_chain_alerts [where path = "module_path (example w)"])

lemma module_chain_calls:
  assumes "pending_import p = Some path"
  shows "calls_of (trace (module_chain w p)) =
     calls_of (trace p) @
     (case import_result w path of
        ImportResolves (Callable f) \<Rightarrow> [[]]
      | _ \<Rightarrow> [])"
  using assms
  by (simp add: module_chain_def run_default_def catch_alert_def emit_def calls_of_def
      split: import_outcome.splits default_export.splits call_outcome.splits
        jsval.splits settle.splits)

lemma load_calls:
  "calls_of (trace (load w ord)) =
     (case import_result w (module_path (example w)) of
        ImportResolves (Callable f) \<Rightarrow> [[]]
      | _ \<Rightarrow> [])"
  by (cases ord)
     (simp_all add: load_def source_chain_frame top_level_imports
       module_chain_calls [where path = "module_path (example w)"])


lemma reading_append:
  "imports_of (xs @ ys) = imports_of xs @ imports_of ys"
  "fetches_of (xs @ ys) = fetches_of xs @ fetches_of ys"
  "alerts_of (xs @ ys) = alerts_of xs @ alerts_of ys"
  "calls_of (xs @ ys) = calls_of xs @ calls_of ys"
  "writes_of (xs @ ys) = writes_of xs @ writes_of ys"
  "uncaught_of (xs @ ys) = uncaught_of xs @ uncaught_of ys"
  "unhandled_of (xs @ ys) = unhandled_of xs @ unhandled_of ys"
  by (simp_all add: reading_defs)

lemma write_text_failure:
  assumes "write_text w t q = Inl e"
  shows "show_text w t p = (Some e, p)"
  using assms by (simp add: show_text_def write_text_def split: lookup.splits)

lemma source_chain_failure:
  assumes "pending_fetch p = Some path"
    and "fetch_result w path = FetchRejects e \<or>
         fetch_result w path = FetchResolves (TextRejects e) \<or>
         fetch_result w path = FetchResolves (TextResolves t) \<and> write_text w t q = Inl e"
  shows "doc (source_chain w p) = doc p"
    and "trace (source_chain w p) = trace p @ [Unhandled e]"
  using assms
  by (auto simp add: source_chain_def emit_def
      write_text_failure [where p = "p\<lparr>pending_fetch := None\<rparr>"])

lemma source_chain_writes:
  assumes "pending_fetch p = Some path"
  shows "writes_of (trace (source_chain w p)) =
     writes_of (trace p) @
     (case fetch_result w path of
        FetchResolves (TextResolves t) \<Rightarrow>
          (case querySelector w ''#code'' of Found c \<Rightarrow> [(c, t)] | _ \<Rightarrow> [])
      | _ \<Rightarrow> [])"
  using assms
  by (simp add: source_chain_def show_text_defs emit_def writes_of_def
      split: fetch_outcome.splits text_outcome.splits lookup.splits outcome_splits)

lemma source_chain_doc:
  assumes "pending_fetch p = Some path"
  shows "doc (source_chain w p) =
     (case fetch_result w path of
        FetchResolves (TextResolves t) \<Rightarrow>
          (case querySelector w ''#code'' of
             Found c \<Rightarrow> highlightAll w (set_textContent c t (doc p))
           | _ \<Rightarrow> doc p)
      | _ \<Rightarrow> doc p)"
  using assms
  by (simp add: source_chain_def show_text_defs emit_def
      split: fetch_outcome.splits text_outcome.splits lookup.splits outcome_splits)

lemma source_chain_highlight_failure:
  assumes "pending_fetch p = Some path"
    and "fetch_result w path = FetchResolves (TextResolves t)"
    and "querySelector w ''#code'' = Found c"
    and "highlightAll_outcome w (set_textContent c t (doc p)) = Throws e \<or>
         highlightAll_outcome w (set_textContent c t (doc p)) = Returns (Promise (RejectsWith e))"
  shows "e \<in> set (unhandled_of (trace (source_chain w p)))"
  using assms
  by (auto simp add: source_chain_def show_text_defs emit_def unhandled_of_def)

lemma module_chain_unhandled:
  "set (unhandled_of (trace p)) \<subseteq> set (unhandled_of (trace (module_chain w p)))"
  by (auto simp add: module_chain_def run_default_def catch_alert_def emit_def unhandled_of_def
      split: option.splits import_outcome.splits default_export.splits call_outcome.splits
        jsval.splits settle.splits)

lemma source_chain_unhandled:
  "set (unhandled_of (trace p)) \<subseteq> set (unhandled_of (trace (source_chain w p)))"
  by (auto simp add: source_chain_def show_text_defs emit_def unhandled_of_def
      split: option.splits fetch_outcome.splits text_outcome.splits lookup.splits
        outcome_splits)

lemma module_chain_rejecting_promise:
  assumes "pending_import p = Some path"
    and "import_result w path = ImportResolves (Callable f)"
    and "f [] = Returns (Promise (RejectsWith e))"
  shows "e \<in> set (unhandled_of (trace (module_chain w p)))"
  using assms
  by (simp add: module_chain_def run_default_def emit_def unhandled_of_def)

lemma example_cases:
  "example w = (case fragment w of None \<Rightarrow> ''cells'' | Some f \<Rightarrow> if f = [] then ''cells'' else f)"
  by (simp add: example_def location_hash_def substr_def split: option.splits)

text \<open>
  Claim C9. Resolving the selector is a total function of the URL fragment and never returns
  the empty string: a non-empty fragment is returned as it is, an absent or empty fragment
  gives the fixed identifier \<open>cells\<close>. There is no error case.
\<close>
theorem example_total_nonempty:
  "example w \<noteq> [] \<and>
   example w = (case fragment w of None \<Rightarrow> ''cells'' | Some f \<Rightarrow> if f = [] then ''cells'' else f)"
  by (simp add: example_def location_hash_def substr_def split: option.splits)

theorem example_total_nonempty_witness:
  "example (site (Some ''foo'')) = ''foo'' \<and> example (site (Some [])) = ''cells'' \<and>
   example (site None) = ''cells''"
  using example_total_nonempty [of "site (Some ''foo'')"]
    example_total_nonempty [of "site (Some [])"] example_total_nonempty [of "site None"]
  by (simp add: site_def)

text \<open>
  Claim C1. With an empty or absent fragment the selector is \<open>cells\<close>: the one path
  passed to the dynamic import is \<open>./wasm/examples/cells.js\<close>, and the path passed to
  \<open>fetch\<close> is \<open>./sources/cells.rs\<close> (the fetch is issued once the active link has been
  found).
\<close>
theorem default_selector_paths:
  assumes "fragment w = None \<or> fragment w = Some []"
  shows "example w = ''cells'' \<and>
     imports_of (trace (load w ord)) = [''./wasm/examples/cells.js''] \<and>
     set (fetches_of (trace (load w ord))) \<subseteq> {''./sources/cells.rs''} \<and>
     (querySelector w (anchor_selector ''cells'') = Found a \<longrightarrow>
        fetches_of (trace (load w ord)) = [''./sources/cells.rs''])"
proof -
  from assms have ex: "example w = ''cells''"
    by (auto simp add: example_cases)
  show ?thesis
    by (cases "querySelector w (anchor_selector ''cells'')")
       (simp_all add: ex load_imports load_fetches module_path_def source_path_def)
qed

theorem default_selector_paths_witness:
  "fragment (site None) = None \<and>
   querySelector (site None) (anchor_selector ''cells'') = Found 1 \<and>
   imports_of (trace (load (site None) SourceFirst)) = [''./wasm/examples/cells.js''] \<and>
   fetches_of (trace (load (site None) SourceFirst)) = [''./sources/cells.rs'']"
  using default_selector_paths [of "site None" SourceFirst 1]
  by (simp add: site_def anchor_selector_def)

text \<open>
  Claim C2. A non-empty fragment \<open>s\<close> is used as it is, with no transformation, validation
  or encoding: the module path is \<open>./wasm/examples/\<close> then \<open>s\<close> then \<open>.js\<close>, the source
  path is \<open>./sources/\<close> then \<open>s\<close> then \<open>.rs\<close>.
\<close>
theorem selector_passthrough:
  assumes "fragment w = Some s" and "s \<noteq> []"
  shows "example w = s \<and>
     imports_of (trace (load w ord)) = [''./wasm/examples/'' @ s @ ''.js''] \<and>
     set (fetches_of (trace (load w ord))) \<subseteq> {''./sources/'' @ s @ ''.rs''} \<and>
     (querySelector w (anchor_selector s) = Found a \<longrightarrow>
        fetches_of (trace (load w ord)) = [''./sources/'' @ s @ ''.rs''])"
proof -
  from assms have ex: "example w = s"
    by (simp add: example_cases)
  show ?thesis
    by (cases "querySelector w (anchor_selector s)")
       (simp_all add: ex load_imports load_fetches module_path_def source_path_def)
qed

theorem selector_passthrough_witness:
  "fragment (site (Some ''foo'')) = Some ''foo'' \<and>
   querySelector (site (Some ''foo'')) (anchor_selector ''foo'') = Found 2 \<and>
   imports_of (trace (load (site (Some ''foo'')) ModuleFirst)) = [''./wasm/examples/foo.js''] \<and>
   fetches_of (trace (load (site (Some ''foo'')) ModuleFirst)) = [''./sources/foo.rs'']"
  using selector_passthrough [of "site (Some ''foo'')" "''foo''" ModuleFirst 2]
  by (simp add: site_def anchor_selector_def)

text \<open>
  Claim C3. An alert is shown exactly when the module pipeline fails. If the import rejects
  with \<open>E\<close>, or the call of the default export throws \<open>E\<close>, there is exactly one alert and
  its message is the string form of \<open>E\<close>; if the module loads and the call returns, there
  is none. A page load never shows more than one alert.
\<close>
theorem alert_iff_module_failure:
  "(import_result w (module_path (example w)) = ImportRejects E \<longrightarrow>
      alerts_of (trace (load w ord)) = [toString E]) \<and>
   (import_result w (module_path (example w)) = ImportResolves (Callable f) \<and> f [] = Throws E \<longrightarrow>
      alerts_of (trace (load w ord)) = [toString E]) \<and>
   (import_result w (module_path (example w)) = ImportResolves (Callable f) \<and> f [] = Returns v \<longrightarrow>
      alerts_of (trace (load w ord)) = []) \<and>
   (alerts_of (trace (load w ord)) \<noteq> [] \<longleftrightarrow>
      (\<exists>e. import_result w (module_path (example w)) = ImportRejects e) \<or>
      import_result w (module_path (example w)) = ImportResolves NotCallable \<or>
      (\<exists>g e. import_result w (module_path (example w)) = ImportResolves (Callable g) \<and>
         g [] = Throws e)) \<and>
   length (alerts_of (trace (load w ord))) \<le> 1"
  by (auto simp add: load_alerts
      split: import_outcome.splits default_export.splits call_outcome.splits)

theorem alert_iff_module_failure_witness:
  "import_result (site (Some ''nope'')) (module_path (example (site (Some ''nope'')))) =
     ImportRejects (Error ''TypeError'' ''module not found'') \<and>
   alerts_of (trace (load (site (Some ''nope'')) ModuleFirst)) = [''TypeError: module not found''] \<and>
   alerts_of (trace (load (site None) ModuleFirst)) = []"
  using alert_iff_module_failure [of "site (Some ''nope'')"
      "Error ''TypeError'' ''module not found''" ModuleFirst "\<lambda>args. Returns Undefined" Undefined]
    alert_iff_module_failure [of "site None"
      "Error ''TypeError'' ''module not found''" ModuleFirst "\<lambda>args. Returns Undefined" Undefined]
  by (simp add: site_def example_cases module_path_def)


lemma load_not_found:
  assumes "querySelector w (anchor_selector (example w)) = NotFound"
  shows "doc (load w ord) = document w"
    and "uncaught_of (trace (load w ord)) = [null_property ''classList'']"
    and "writes_of (trace (load w ord)) = []"
    and "onhashchange (load w ord) = None"
  using assms
  by (cases ord;
      simp add: load_def module_chain_frame source_chain_frame top_level_not_found
        top_level_imports source_chain_def)+

text \<open>
  Claim C4, as stated, says that the marking of the active link silently does nothing when
  no anchor matches. On the site opened at \<open>#nope\<close> the lookup finds nothing, and the
  statement throws: the exception is uncaught, no fetch follows and no handler is installed.
\<close>
theorem missing_anchor_not_silent_counterexample:
  "querySelector (site (Some ''nope'')) (anchor_selector (example (site (Some ''nope'')))) = NotFound \<and>
   uncaught_of (trace (load (site (Some ''nope'')) ModuleFirst)) = [null_property ''classList''] \<and>
   fetches_of (trace (load (site (Some ''nope'')) ModuleFirst)) = [] \<and>
   onhashchange (load (site (Some ''nope'')) ModuleFirst) = None"
proof -
  have nf: "querySelector (site (Some ''nope'')) (anchor_selector (example (site (Some ''nope'')))) = NotFound"
    by (simp add: site_def example_cases anchor_selector_def)
  show ?thesis
    using nf by (simp add: load_not_found load_fetches)
qed

text \<open>
  Claim C4, amended. When no anchor matches, the marking step changes nothing in the
  document, but it throws a TypeError, which stays uncaught and ends the top level of the
  script before the hash-change handler is installed.
\<close>
theorem missing_anchor_throws:
  assumes "querySelector w (anchor_selector (example w)) = NotFound"
  shows "mark_active w (example w) p = Inl (null_property ''classList'') \<and>
     doc (load w ord) = document w \<and>
     uncaught_of (trace (load w ord)) = [null_property ''classList''] \<and>
     onhashchange (load w ord) = None"
  using assms by (simp add: load_not_found mark_active_def)

theorem missing_anchor_throws_witness:
  "querySelector (site (Some ''nope'')) (anchor_selector (example (site (Some ''nope'')))) = NotFound \<and>
   doc (load (site (Some ''nope'')) SourceFirst) = blank \<and>
   uncaught_of (trace (load (site (Some ''nope'')) SourceFirst)) =
     [Error ''TypeError'' ''Cannot access property of null: classList'']"
  using missing_anchor_throws [of "site (Some ''nope'')" "initial_page (site (Some ''nope''))" SourceFirst]
  by (simp add: site_def example_cases anchor_selector_def null_property_def)

text \<open>
  Claim C10. When no anchor matches, the statement that marks the active link throws, so the
  source-display pipeline after it never starts: no fetch is issued and no text is written.
  The import issued before it still proceeds: its rejection is alerted, its module is run.
\<close>
theorem missing_anchor_skips_source_pipeline:
  assumes "querySelector w (anchor_selector (example w)) = NotFound"
  shows "uncaught_of (trace (load w ord)) = [null_property ''classList''] \<and>
     fetches_of (trace (load w ord)) = [] \<and>
     writes_of (trace (load w ord)) = [] \<and>
     textContent (doc (load w ord)) = textContent (document w) \<and>
     imports_of (trace (load w ord)) = [module_path (example w)] \<and>
     (import_result w (module_path (example w)) = ImportRejects E \<longrightarrow>
        alerts_of (trace (load w ord)) = [toString E]) \<and>
     (import_result w (module_path (example w)) = ImportResolves (Callable f) \<longrightarrow>
        calls_of (trace (load w ord)) = [[]])"
  using assms by (simp add: load_not_found load_fetches load_imports load_alerts load_calls)

theorem missing_anchor_skips_source_pipeline_witness:
  "querySelector (site (Some ''nope'')) (anchor_selector (example (site (Some ''nope'')))) = NotFound \<and>
   fetches_of (trace (load (site (Some ''nope'')) ModuleFirst)) = [] \<and>
   writes_of (trace (load (site (Some ''nope'')) ModuleFirst)) = [] \<and>
   imports_of (trace (load (site (Some ''nope'')) ModuleFirst)) = [''./wasm/examples/nope.js''] \<and>
   alerts_of (trace (load (site (Some ''nope'')) ModuleFirst)) = [''TypeError: module not found'']"
  using missing_anchor_skips_source_pipeline [of "site (Some ''nope'')" ModuleFirst
      "Error ''TypeError'' ''module not found''" "\<lambda>args. Returns Undefined"]
  by (simp add: site_def example_cases anchor_selector_def module_path_def)

lemma load_found_source:
  assumes "querySelector w (anchor_selector (example w)) = Found a"
  shows "writes_of (trace (load w ord)) =
     (case fetch_result w (source_path (example w)) of
        FetchResolves (TextResolves t) \<Rightarrow>
          (case querySelector w ''#code'' of Found c \<Rightarrow> [(c, t)] | _ \<Rightarrow> [])
      | _ \<Rightarrow> [])"
    and "doc (load w ord) =
     (case fetch_result w (source_path (example w)) of
        FetchResolves (TextResolves t) \<Rightarrow>
          (case querySelector w ''#code'' of
             Found c \<Rightarrow> highlightAll w (set_textContent c t (doc (top_level w)))
           | _ \<Rightarrow> doc (top_level w))
      | _ \<Rightarrow> doc (top_level w))"
proof -
  let ?path = "source_path (example w)"
  have pend: "pending_fetch (top_level w) = Some ?path"
    using assms by (rule top_level_found)
  have pend': "pending_fetch (module_chain w (top_level w)) = Some ?path"
    using pend by (simp add: module_chain_frame)
  show "writes_of (trace (load w ord)) =
     (case fetch_result w ?path of
        FetchResolves (TextResolves t) \<Rightarrow>
          (case querySelector w ''#code'' of Found c \<Rightarrow> [(c, t)] | _ \<Rightarrow> [])
      | _ \<Rightarrow> [])"
    by (cases ord)
       (simp_all add: load_def module_chain_frame top_level_imports
         source_chain_writes [OF pend] source_chain_writes [OF pend'])
  show "doc (load w ord) =
     (case fetch_result w ?path of
        FetchResolves (TextResolves t) \<Rightarrow>
          (case querySelector w ''#code'' of
             Found c \<Rightarrow> highlightAll w (set_textContent c t (doc (top_level w)))
           | _ \<Rightarrow> doc (top_level w))
      | _ \<Rightarrow> doc (top_level w))"
    by (cases ord)
       (simp_all add: load_def module_chain_frame
         source_chain_doc [OF pend] source_chain_doc [OF pend']
         split: fetch_outcome.splits text_outcome.splits lookup.splits)
qed

lemma load_failure_before_write:
  assumes "querySelector w (anchor_selector (example w)) = Found a"
    and "fetch_result w (source_path (example w)) = FetchRejects e \<or>
         fetch_result w (source_path (example w)) = FetchResolves (TextRejects e) \<or>
         fetch_result w (source_path (example w)) = FetchResolves (TextResolves t) \<and>
           write_text w t q = Inl e"
  shows "e \<in> set (unhandled_of (trace (load w ord)))"
    and "writes_of (trace (load w ord)) = []"
    and "doc (load w ord) = doc (top_level w)"
proof -
  let ?path = "source_path (example w)"
  have pend: "pending_fetch (top_level w) = Some ?path"
    using assms(1) by (rule top_level_found)
  have pend': "pending_fetch (module_chain w (top_level w)) = Some ?path"
    using pend by (simp add: module_chain_frame)
  show "e \<in> set (unhandled_of (trace (load w ord)))"
  proof (cases ord)
    case ModuleFirst
    then show ?thesis
      using source_chain_failure(2) [OF pend' assms(2)]
      by (simp add: load_def reading_append) (simp add: unhandled_of_def)
  next
    case SourceFirst
    have "e \<in> set (unhandled_of (trace (source_chain w (top_level w))))"
      using source_chain_failure(2) [OF pend assms(2)]
      by (simp add: reading_append) (simp add: unhandled_of_def)
    then show ?thesis
      using module_chain_unhandled [of "source_chain w (top_level w)" w] SourceFirst
      by (auto simp add: load_def)
  qed
  show "writes_of (trace (load w ord)) = []"
    using assms(2)
    by (auto simp add: load_found_source [OF assms(1)] write_text_def split: lookup.splits)
  show "doc (load w ord) = doc (top_level w)"
    using assms(2)
    by (auto simp add: load_found_source [OF assms(1)] write_text_def split: lookup.splits)
qed

lemma load_failure_after_write:
  assumes "querySelector w (anchor_selector (example w)) = Found a"
    and "fetch_result w (source_path (example w)) = FetchResolves (TextResolves t)"
    and "querySelector w ''#code'' = Found c"
    and "highlightAll_outcome w (set_textContent c t (doc (top_level w))) = Throws e \<or>
         highlightAll_outcome w (set_textContent c t (doc (top_level w))) =
           Returns (Promise (RejectsWith e))"
  shows "e \<in> set (unhandled_of (trace (load w ord)))"
    and "writes_of (trace (load w ord)) = [(c, t)]"
    and "doc (load w ord) = highlightAll w (set_textContent c t (doc (top_level w)))"
proof -
  let ?path = "source_path (example w)"
  have pend: "pending_fetch (top_level w) = Some ?path"
    using assms(1) by (rule top_level_found)
  have pend': "pending_fetch (module_chain w (top_level w)) = Some ?path"
    using pend by (simp add: module_chain_frame)
  have same_doc: "doc (module_chain w (top_level w)) = doc (top_level w)"
    by (simp add: module_chain_frame)
  show "e \<in> set (unhandled_of (trace (load w ord)))"
  proof (cases ord)
    case ModuleFirst
    then show ?thesis
      using source_chain_highlight_failure [OF pend' assms(2) assms(3)] assms(4)
      by (simp add: load_def same_doc)
  next
    case SourceFirst
    have "e \<in> set (unhandled_of (trace (source_chain w (top_level w))))"
      using source_chain_highlight_failure [OF pend assms(2) assms(3)] assms(4) by simp
    then show ?thesis
      using module_chain_unhandled [of "source_chain w (top_level w)" w] SourceFirst
      by (auto simp add: load_def)
  qed
  show "writes_of (trace (load w ord)) = [(c, t)]"
    using assms(2) assms(3) by (simp add: load_found_source [OF assms(1)])
  show "doc (load w ord) = highlightAll w (set_textContent c t (doc (top_level w)))"
    using assms(2) assms(3) by (simp add: load_found_source [OF assms(1)])
qed

text \<open>
  Claim C5, as stated, says that a failure anywhere in the source-display pipeline leaves the
  text content of the display element unchanged. On the site whose highlighter throws, the
  source is fetched and read, the error of the highlighter ends as an unhandled rejection,
  and the display element, empty as served, holds the fetched text.
\<close>
theorem source_failure_after_write_counterexample:
  "fetch_result broken_site (source_path (example broken_site)) =
     FetchResolves (TextResolves ''fn main() {}'') \<and>
   Error ''Error'' ''no such language''
     \<in> set (unhandled_of (trace (load broken_site ModuleFirst))) \<and>
   textContent (document broken_site) 0 = [] \<and>
   textContent (doc (load broken_site ModuleFirst)) 0 = ''fn main() {}''"
proof -
  have found: "querySelector broken_site (anchor_selector (example broken_site)) = Found 1"
    by (simp add: broken_site_def site_def example_cases anchor_selector_def)
  have fetched: "fetch_result broken_site (source_path (example broken_site)) =
     FetchResolves (TextResolves ''fn main() {}'')"
    by (simp add: broken_site_def site_def example_cases source_path_def)
  have display: "querySelector broken_site ''#code'' = Found 0"
    by (simp add: broken_site_def site_def)
  have thrown: "highlightAll_outcome broken_site
       (set_textContent 0 ''fn main() {}'' (doc (top_level broken_site))) =
     Throws (Error ''Error'' ''no such language'')"
    by (simp add: broken_site_def)
  have served: "textContent (document broken_site) 0 = []"
    by (simp add: broken_site_def site_def blank_def)
  have shown: "textContent (doc (load broken_site ModuleFirst)) 0 = ''fn main() {}''"
    by (simp add: load_failure_after_write(3) [OF found fetched display disjI1 [OF thrown]]
        set_textContent_def)
      (simp add: broken_site_def)
  show ?thesis
    using fetched served shown
      load_failure_after_write(1) [OF found fetched display disjI1 [OF thrown]]
    by simp
qed

text \<open>
  Claim C5, amended. A failure in the source-display pipeline is unhandled and silent: the
  error ends as an unhandled rejection and the source chain adds no alert to any page. When
  the failure comes before the write (the fetch rejects, the reading of the body rejects, or
  the assignment to the display element throws), nothing is written and the document stays
  as the top level left it, the text content as served. When the highlighter fails, the
  text is already written.
\<close>
theorem source_failure_silent:
  assumes "querySelector w (anchor_selector (example w)) = Found a"
  shows "(fetch_result w (source_path (example w)) = FetchRejects e \<or>
      fetch_result w (source_path (example w)) = FetchResolves (TextRejects e) \<or>
      fetch_result w (source_path (example w)) = FetchResolves (TextResolves t) \<and>
        write_text w t q = Inl e \<longrightarrow>
        e \<in> set (unhandled_of (trace (load w ord))) \<and>
        writes_of (trace (load w ord)) = [] \<and>
        doc (load w ord) = doc (top_level w) \<and>
        textContent (doc (load w ord)) = textContent (document w)) \<and>
     (fetch_result w (source_path (example w)) = FetchResolves (TextResolves t) \<and>
      querySelector w ''#code'' = Found c \<and>
      (highlightAll_outcome w (set_textContent c t (doc (top_level w))) = Throws e \<or>
       highlightAll_outcome w (set_textContent c t (doc (top_level w))) =
         Returns (Promise (RejectsWith e))) \<longrightarrow>
        e \<in> set (unhandled_of (trace (load w ord))) \<and>
        writes_of (trace (load w ord)) = [(c, t)] \<and>
        doc (load w ord) = highlightAll w (set_textContent c t (doc (top_level w)))) \<and>
     alerts_of (trace (source_chain w p)) = alerts_of (trace p)"
proof -
  have same_text: "textContent (doc (top_level w)) = textContent (document w)"
    using assms by (simp add: top_level_found classList_add_def)
  show ?thesis
    using load_failure_before_write [OF assms, of e t q ord]
      load_failure_after_write [OF assms, of t c e ord] same_text
    by (simp add: source_chain_frame)
qed

theorem source_failure_silent_witness:
  "querySelector (site (Some ''foo'')) (anchor_selector (example (site (Some ''foo'')))) = Found 2 \<and>
   fetch_result (site (Some ''foo'')) (source_path (example (site (Some ''foo'')))) =
     FetchRejects (Error ''TypeError'' ''failed to fetch'') \<and>
   Error ''TypeError'' ''failed to fetch''
     \<in> set (unhandled_of (trace (load (site (Some ''foo'')) SourceFirst))) \<and>
   writes_of (trace (load (site (Some ''foo'')) SourceFirst)) = [] \<and>
   textContent (doc (load (site (Some ''foo'')) SourceFirst)) = textContent blank \<and>
   querySelector broken_site (anchor_selector (example broken_site)) = Found 1 \<and>
   Error ''Error'' ''no such language''
     \<in> set (unhandled_of (trace (load broken_site SourceFirst))) \<and>
   writes_of (trace (load broken_site SourceFirst)) = [(0, ''fn main() {}'')]"
proof -
  have found: "querySelector (site (Some ''foo'')) (anchor_selector (example (site (Some ''foo'')))) = Found 2"
    by (simp add: site_def example_cases anchor_selector_def)
  have rejected: "fetch_result (site (Some ''foo'')) (source_path (example (site (Some ''foo'')))) =
     FetchRejects (Error ''TypeError'' ''failed to fetch'')"
    by (simp add: site_def example_cases source_path_def)
  have served: "document (site (Some ''foo'')) = blank"
    by (simp add: site_def)
  have found': "querySelector broken_site (anchor_selector (example broken_site)) = Found 1"
    by (simp add: broken_site_def site_def example_cases anchor_selector_def)
  have fetched: "fetch_result broken_site (source_path (example broken_site)) =
     FetchResolves (TextResolves ''fn main() {}'')"
    by (simp add: broken_site_def site_def example_cases source_path_def)
  have display: "querySelector broken_site ''#code'' = Found 0"
    by (simp add: broken_site_def site_def)
  have thrown: "highlightAll_outcome broken_site
       (set_textContent 0 ''fn main() {}'' (doc (top_level broken_site))) =
     Throws (Error ''Error'' ''no such language'')"
    by (simp add: broken_site_def)
  note before = source_failure_silent [OF found, of "Error ''TypeError'' ''failed to fetch''"
      "[]" "initial_page (site (Some ''foo''))" SourceFirst 0 "initial_page (site (Some ''foo''))",
      unfolded served, THEN conjunct1, rule_format, OF disjI1 [OF rejected]]
  note after = source_failure_silent [OF found', of "Error ''Error'' ''no such language''"
      "''fn main() {}''" "initial_page broken_site" SourceFirst 0 "initial_page broken_site",
      THEN conjunct2, THEN conjunct1, rule_format,
      OF conjI [OF fetched conjI [OF display disjI1 [OF thrown]]]]
  show ?thesis
    using found rejected found' before after
    by (intro conjI) (elim conjE, assumption)+
qed

lemma load_rejecting_promise:
  assumes "import_result w (module_path (example w)) = ImportResolves (Callable f)"
    and "f [] = Returns (Promise (RejectsWith e))"
  shows "e \<in> set (unhandled_of (trace (load w ord)))"
proof (cases ord)
  case ModuleFirst
  have "e \<in> set (unhandled_of (trace (module_chain w (top_level w))))"
    using assms top_level_imports(2) [of w]
    by (simp add: module_chain_rejecting_promise [where path = "module_path (example w)" and f = f])
  then show ?thesis
    using source_chain_unhandled [of "module_chain w (top_level w)" w] ModuleFirst
    by (auto simp add: load_def)
next
  case SourceFirst
  have "pending_import (source_chain w (top_level w)) = Some (module_path (example w))"
    by (simp add: source_chain_frame top_level_imports)
  then show ?thesis
    using assms SourceFirst by (simp add: load_def module_chain_rejecting_promise)
qed

text \<open>
  Claim C6. When the module loads and its default export is a function, it is called exactly
  once, with no argument. Whatever the call returns is dropped: no alert follows, and a
  returned promise that rejects later ends as an unhandled rejection, not in the
  \<open>catch\<close> reaction.
\<close>
theorem default_export_called_once:
  assumes "import_result w (module_path (example w)) = ImportResolves (Callable f)"
  shows "calls_of (trace (load w ord)) = [[]] \<and>
     (f [] = Returns v \<longrightarrow> alerts_of (trace (load w ord)) = []) \<and>
     (f [] = Returns (Promise (RejectsWith e)) \<longrightarrow>
        alerts_of (trace (load w ord)) = [] \<and> e \<in> set (unhandled_of (trace (load w ord))))"
  using assms load_rejecting_promise [OF assms, of e ord]
  by (simp add: load_calls load_alerts)

theorem default_export_called_once_witness:
  "import_result (site (Some ''foo'')) (module_path (example (site (Some ''foo'')))) =
     ImportResolves (Callable (\<lambda>args. Returns (Promise (RejectsWith (Error ''Error'' ''lost context''))))) \<and>
   calls_of (trace (load (site (Some ''foo'')) ModuleFirst)) = [[]] \<and>
   alerts_of (trace (load (site (Some ''foo'')) ModuleFirst)) = [] \<and>
   Error ''Error'' ''lost context''
     \<in> set (unhandled_of (trace (load (site (Some ''foo'')) ModuleFirst)))"
proof -
  have loaded: "import_result (site (Some ''foo'')) (module_path (example (site (Some ''foo'')))) =
     ImportResolves (Callable (\<lambda>args. Returns (Promise (RejectsWith (Error ''Error'' ''lost context'')))))"
    by (simp add: site_def example_cases module_path_def)
  show ?thesis
    using loaded
      default_export_called_once [OF loaded, of ModuleFirst
        "Promise (RejectsWith (Error ''Error'' ''lost context''))" "Error ''Error'' ''lost context''"]
    by simp
qed

lemma source_pipeline_text:
  assumes "\<forall>d. textContent (highlightAll w d) = textContent d"
  shows "textContent (doc (source_pipeline w ex p)) =
     (case fetch_result w (source_path ex) of
        FetchResolves (TextResolves t) \<Rightarrow>
          (case querySelector w ''#code'' of
             Found c \<Rightarrow> (textContent (doc p))(c := t)
           | _ \<Rightarrow> textContent (doc p))
      | _ \<Rightarrow> textContent (doc p))"
  using assms
  by (simp add: source_pipeline_def source_chain_def fetch_source_def show_text_defs emit_def
      set_textContent_def
      split: fetch_outcome.splits text_outcome.splits lookup.splits outcome_splits)

text \<open>
  Claim C7. For a fixed selector and a fixed world (hence the same fetched text), running
  the source-display pipeline twice leaves every element with the text content that one run
  leaves, given that the highlighter changes no text content.
\<close>
theorem display_idempotent:
  assumes "\<forall>d. textContent (highlightAll w d) = textContent d"
  shows "textContent (doc (source_pipeline w ex (source_pipeline w ex p))) =
     textContent (doc (source_pipeline w ex p))"
  by (simp add: source_pipeline_text [OF assms]
      split: fetch_outcome.splits text_outcome.splits lookup.splits)

theorem display_idempotent_witness:
  "textContent (doc (source_pipeline (site None) ''cells''
      (source_pipeline (site None) ''cells'' (initial_page (site None))))) =
   textContent (doc (source_pipeline (site None) ''cells'' (initial_page (site None)))) \<and>
   textContent (doc (source_pipeline (site None) ''cells'' (initial_page (site None)))) 0 =
     ''fn main() {}''"
proof -
  have keeps: "\<forall>d. textContent (highlightAll (site None) d) = textContent d"
    by (simp add: site_def classList_add_def)
  have once: "textContent (doc (source_pipeline (site None) ''cells'' (initial_page (site None)))) 0 =
     ''fn main() {}''"
    by (simp add: source_pipeline_def source_chain_def fetch_source_def show_text_defs emit_def
        set_textContent_def site_def source_path_def classList_add_def initial_page_def blank_def)
  show ?thesis
    using once display_idempotent [OF keeps, of "''cells''" "initial_page (site None)"]
    by simp
qed

lemma load_found_handler:
  assumes "querySelector w (anchor_selector (example w)) = Found a"
  shows "onhashchange (load w ord) = Some ReloadPage"
  using assms
  by (cases ord) (simp_all add: load_def module_chain_frame source_chain_frame top_level_found)

lemma hashchange_installed:
  assumes "onhashchange p = Some h"
  shows "hashchange old new w ord p = load (w\<lparr>fragment := new\<rparr>) ord"
  using assms by (cases h) (simp add: hashchange_def)

lemma hashchange_not_installed:
  assumes "onhashchange p = None"
  shows "hashchange old new w ord p = p"
  using assms by (simp add: hashchange_def)

text \<open>
  Claim C8, as stated, says that every hash-change event forces a reload after which both
  pipelines run again. From the loaded default page, a change to \<open>#nope\<close> does reload,
  but on the new page the source-display pipeline does not run and no handler is installed;
  the next change, to \<open>#foo\<close>, then reloads nothing: the page stays the one of \<open>nope\<close>.
\<close>
theorem hashchange_not_always_reload_counterexample:
  "onhashchange (load (site None) ModuleFirst) = Some ReloadPage \<and>
   fetches_of (trace (hashchange None (Some ''nope'') (site None) ModuleFirst
      (load (site None) ModuleFirst))) = [] \<and>
   onhashchange (hashchange None (Some ''nope'') (site None) ModuleFirst
      (load (site None) ModuleFirst)) = None \<and>
   hashchange (Some ''nope'') (Some ''foo'') (site None) ModuleFirst
      (hashchange None (Some ''nope'') (site None) ModuleFirst (load (site None) ModuleFirst)) =
     hashchange None (Some ''nope'') (site None) ModuleFirst (load (site None) ModuleFirst) \<and>
   imports_of (trace (hashchange (Some ''nope'') (Some ''foo'') (site None) ModuleFirst
      (hashchange None (Some ''nope'') (site None) ModuleFirst (load (site None) ModuleFirst)))) =
     [''./wasm/examples/nope.js'']"
proof -
  have found: "querySelector (site None) (anchor_selector (example (site None))) = Found 1"
    by (simp add: site_def example_cases anchor_selector_def)
  have installed: "onhashchange (load (site None) ModuleFirst) = Some ReloadPage"
    using found by (rule load_found_handler)
  have moved: "(site None)\<lparr>fragment := Some ''nope''\<rparr> = site (Some ''nope'')"
    by (simp add: site_def)
  have reloaded: "hashchange None (Some ''nope'') (site None) ModuleFirst (load (site None) ModuleFirst) =
     load (site (Some ''nope'')) ModuleFirst"
    using hashchange_installed [OF installed, of None "Some ''nope''" "site None" ModuleFirst]
    by (simp add: moved)
  have missing: "querySelector (site (Some ''nope'')) (anchor_selector (example (site (Some ''nope'')))) =
     NotFound"
    by (simp add: site_def example_cases anchor_selector_def)
  have none: "onhashchange (load (site (Some ''nope'')) ModuleFirst) = None"
    using missing by (rule load_not_found)
  have fetches: "fetches_of (trace (load (site (Some ''nope'')) ModuleFirst)) = []"
    using missing by (simp add: load_fetches)
  have imported: "imports_of (trace (load (site (Some ''nope'')) ModuleFirst)) =
     [''./wasm/examples/nope.js'']"
    by (simp add: load_imports) (simp add: site_def example_cases module_path_def)
  show ?thesis
    unfolding reloaded
    using installed none fetches imported
    by (simp add: hashchange_not_installed [OF none])
qed

text \<open>
  Claim C8, amended. Whenever the handler is installed, a hash-change event, whatever the
  old and the new fragment, replaces the page by a fresh load in the world with the new
  fragment: the selector is resolved from the new fragment and the module pipeline runs
  again with it (the import is requested, a rejection is alerted, a loaded default export is
  called). The source-display pipeline runs again with it, and the handler is installed
  again, when an anchor for the new selector exists: the source is fetched, and a text that
  is read is written to the display element and highlighted. When no such anchor exists,
  nothing is fetched or written and no handler is installed.
\<close>
theorem hashchange_reloads:
  assumes "onhashchange p = Some h"
  shows "hashchange old new w ord p = load (w\<lparr>fragment := new\<rparr>) ord \<and>
     example (w\<lparr>fragment := new\<rparr>) =
       (case new of None \<Rightarrow> ''cells'' | Some f \<Rightarrow> if f = [] then ''cells'' else f) \<and>
     imports_of (trace (hashchange old new w ord p)) =
       [module_path (example (w\<lparr>fragment := new\<rparr>))] \<and>
     (import_result w (module_path (example (w\<lparr>fragment := new\<rparr>))) = ImportRejects E \<longrightarrow>
        alerts_of (trace (hashchange old new w ord p)) = [toString E]) \<and>
     (import_result w (module_path (example (w\<lparr>fragment := new\<rparr>))) =
        ImportResolves (Callable f) \<longrightarrow>
        calls_of (trace (hashchange old new w ord p)) = [[]]) \<and>
     set (fetches_of (trace (hashchange old new w ord p)))
       \<subseteq> {source_path (example (w\<lparr>fragment := new\<rparr>))} \<and>
     (querySelector w (anchor_selector (example (w\<lparr>fragment := new\<rparr>))) = Found a \<longrightarrow>
        fetches_of (trace (hashchange old new w ord p)) =
          [source_path (example (w\<lparr>fragment := new\<rparr>))] \<and>
        onhashchange (hashchange old new w ord p) = Some ReloadPage \<and>
        (fetch_result w (source_path (example (w\<lparr>fragment := new\<rparr>))) =
           FetchResolves (TextResolves t) \<and> querySelector w ''#code'' = Found c \<longrightarrow>
           writes_of (trace (hashchange old new w ord p)) = [(c, t)] \<and>
           doc (hashchange old new w ord p) =
             highlightAll w (set_textContent c t (classList_add ''active'' a (document w))))) \<and>
     (querySelector w (anchor_selector (example (w\<lparr>fragment := new\<rparr>))) = NotFound \<longrightarrow>
        fetches_of (trace (hashchange old new w ord p)) = [] \<and>
        writes_of (trace (hashchange old new w ord p)) = [] \<and>
        onhashchange (hashchange old new w ord p) = None)"
proof -
  let ?w = "w\<lparr>fragment := new\<rparr>"
  have reload: "hashchange old new w ord p = load ?w ord"
    using assms by (rule hashchange_installed)
  have module: "imports_of (trace (load ?w ord)) = [module_path (example ?w)] \<and>
     (import_result w (module_path (example ?w)) = ImportRejects E \<longrightarrow>
        alerts_of (trace (load ?w ord)) = [toString E]) \<and>
     (import_result w (module_path (example ?w)) = ImportResolves (Callable f) \<longrightarrow>
        calls_of (trace (load ?w ord)) = [[]])"
    by (simp add: load_imports load_alerts load_calls)
  have source: "set (fetches_of (trace (load ?w ord))) \<subseteq> {source_path (example ?w)}"
    by (cases "querySelector w (anchor_selector (example ?w))") (simp_all add: load_fetches)
  have found: "fetches_of (trace (load ?w ord)) = [source_path (example ?w)] \<and>
        onhashchange (load ?w ord) = Some ReloadPage \<and>
        (fetch_result w (source_path (example ?w)) = FetchResolves (TextResolves t) \<and>
           querySelector w ''#code'' = Found c \<longrightarrow>
           writes_of (trace (load ?w ord)) = [(c, t)] \<and>
           doc (load ?w ord) =
             highlightAll w (set_textContent c t (classList_add ''active'' a (document w))))"
    if "querySelector w (anchor_selector (example ?w)) = Found a"
  proof -
    from that have f: "querySelector ?w (anchor_selector (example ?w)) = Found a"
      by simp
    show ?thesis
      using load_found_source [OF f, of ord] load_found_handler [OF f, of ord]
        top_level_found(5) [OF f] that
      by (simp add: load_fetches)
  qed
  have missing: "fetches_of (trace (load ?w ord)) = [] \<and>
        writes_of (trace (load ?w ord)) = [] \<and> onhashchange (load ?w ord) = None"
    if "querySelector w (anchor_selector (example ?w)) = NotFound"
  proof -
    from that have f: "querySelector ?w (anchor_selector (example ?w)) = NotFound"
      by simp
    show ?thesis
      using load_not_found [OF f, of ord] that by (simp add: load_fetches)
  qed
  show ?thesis
    unfolding reload
    using module source found missing example_cases [of ?w]
    by simp
qed

theorem hashchange_reloads_witness:
  "onhashchange (load (site (Some ''foo'')) ModuleFirst) = Some ReloadPage \<and>
   hashchange (Some ''foo'') (Some ''cells'') (site (Some ''foo'')) SourceFirst
      (load (site (Some ''foo'')) ModuleFirst) = load (site (Some ''cells'')) SourceFirst \<and>
   imports_of (trace (load (site (Some ''cells'')) SourceFirst)) = [''./wasm/examples/cells.js''] \<and>
   calls_of (trace (load (site (Some ''cells'')) SourceFirst)) = [[]] \<and>
   fetches_of (trace (load (site (Some ''cells'')) SourceFirst)) = [''./sources/cells.rs''] \<and>
   writes_of (trace (load (site (Some ''cells'')) SourceFirst)) = [(0, ''fn main() {}'')] \<and>
   onhashchange (load (site (Some ''cells'')) SourceFirst) = Some ReloadPage \<and>
   hashchange (Some ''foo'') (Some ''nope'') (site (Some ''foo'')) SourceFirst
      (load (site (Some ''foo'')) ModuleFirst) = load (site (Some ''nope'')) SourceFirst \<and>
   alerts_of (trace (load (site (Some ''nope'')) SourceFirst)) = [''TypeError: module not found''] \<and>
   fetches_of (trace (load (site (Some ''nope'')) SourceFirst)) = [] \<and>
   onhashchange (load (site (Some ''nope'')) SourceFirst) = None"
proof -
  let ?w = "site (Some ''foo'')"
  have found: "querySelector ?w (anchor_selector (example ?w)) = Found 2"
    by (simp add: site_def example_cases anchor_selector_def)
  have installed: "onhashchange (load ?w ModuleFirst) = Some ReloadPage"
    using found by (rule load_found_handler)
  have to_cells: "?w\<lparr>fragment := Some ''cells''\<rparr> = site (Some ''cells'')"
    and to_nope: "?w\<lparr>fragment := Some ''nope''\<rparr> = site (Some ''nope'')"
    by (simp_all add: site_def)
  have ex: "example (site (Some ''cells'')) = ''cells''" "example (site (Some ''nope'')) = ''nope''"
    by (simp_all add: site_def example_cases)
  have cells: "import_result ?w (module_path ''cells'') =
       ImportResolves (Callable (\<lambda>args. Returns Undefined))"
    "querySelector ?w (anchor_selector ''cells'') = Found 1"
    "fetch_result ?w (source_path ''cells'') = FetchResolves (TextResolves ''fn main() {}'')"
    "querySelector ?w ''#code'' = Found 0"
    by (simp_all add: site_def anchor_selector_def)
  have nope: "import_result ?w (module_path ''nope'') =
       ImportRejects (Error ''TypeError'' ''module not found'')"
    "querySelector ?w (anchor_selector ''nope'') = NotFound"
    by (simp_all add: site_def anchor_selector_def module_path_def)
  note r1 = hashchange_reloads [OF installed, of "Some ''foo''" "Some ''cells''" ?w SourceFirst
      "Error ''TypeError'' ''module not found''" "\<lambda>args. Returns Undefined" 1
      "''fn main() {}''" 0, unfolded to_cells ex]
  note r2 = hashchange_reloads [OF installed, of "Some ''foo''" "Some ''nope''" ?w SourceFirst
      "Error ''TypeError'' ''module not found''" "\<lambda>args. Returns Undefined" 1
      "''fn main() {}''" 0, unfolded to_nope ex]
  show ?thesis
    using installed r1 r2 cells nope
    by (clarsimp simp add: module_path_def source_path_def)
qed

end
